theory Spec2Isabelle
  imports Complex_Main "HOL-Library.AList"
begin

section \<open>The audio player of \<^verbatim>\<open>src/scripts/audio-player.ts\<close>\<close>

text \<open>
  The player is one \<^verbatim>\<open>DOMContentLoaded\<close> callback: it looks up a fixed set of page
  elements, keeps a \<^verbatim>\<open>PlayerState\<close> object, and registers handlers that move data
  between the page and the audio element. The embedding below makes the page, the audio
  element and the state one record; every function of the script and every handler body
  is a function from that record to the updated record.
\<close>

subsection \<open>Numbers\<close>

text \<open>
  A JavaScript \<^verbatim>\<open>number\<close> is modelled as a real or \<^verbatim>\<open>NaN\<close>. Products and
  quotients are rounded to the nearest double, as the script computes them; sums and
  differences (a position plus or minus 10, a volume plus or minus the jump) are taken
  exactly. Signed zeros, the infinities and the subnormal range are outside the model.
  \<^verbatim>\<open>NaN\<close> is kept because the script tests for it (\<^verbatim>\<open>isNaN\<close>,
  \<^verbatim>\<open>duration || 0\<close>): the duration of the audio element is \<^verbatim>\<open>NaN\<close> until the
  metadata is loaded.
\<close>

datatype number = NaN | Num real

fun isNaN :: "number \<Rightarrow> bool" where
  "isNaN NaN = True"
| "isNaN (Num r) = False"

text \<open>Truthiness of a number: \<^verbatim>\<open>0\<close> and \<^verbatim>\<open>NaN\<close> are falsy.\<close>

fun truthy :: "number \<Rightarrow> bool" where
  "truthy NaN = False"
| "truthy (Num r) = (r \<noteq> 0)"

text \<open>\<^verbatim>\<open>a || b\<close> on numbers.\<close>

definition js_or :: "number \<Rightarrow> number \<Rightarrow> number" where
  "js_or a b = (if truthy a then a else b)"

fun js_add :: "number \<Rightarrow> number \<Rightarrow> number" where
  "js_add (Num a) (Num b) = Num (a + b)"
| "js_add _ _ = NaN"

fun js_sub :: "number \<Rightarrow> number \<Rightarrow> number" where
  "js_sub (Num a) (Num b) = Num (a - b)"
| "js_sub _ _ = NaN"

text \<open>
  Rounding to a double: the magnitude is scaled by a power of two into the range from
  \<open>2^52\<close> up to \<open>2^53\<close>, rounded there to the nearest integer, ties to the even one,
  and scaled back. \<^verbatim>\<open>binade\<close> finds the exponent of the scaling.
\<close>

fun binade :: "nat \<Rightarrow> real \<Rightarrow> int \<Rightarrow> int" where
  "binade 0 x e = e"
| "binade (Suc n) x e =
     (if x < 2 ^ 52 then binade n (x * 2) (e - 1)
      else if 2 ^ 53 \<le> x then binade n (x / 2) (e + 1)
      else e)"

definition round_half_even :: "real \<Rightarrow> int" where
  "round_half_even m =
     (let f = \<lfloor>m\<rfloor>; r = m - of_int f
      in if r < 1 / 2 then f else if 1 / 2 < r then f + 1 else if even f then f else f + 1)"

definition to_double :: "real \<Rightarrow> real" where
  "to_double x =
     (if x = 0 then 0
      else
        let e = binade 2200 \<bar>x\<bar> 0
        in sgn x * of_int (round_half_even (\<bar>x\<bar> / 2 powi e)) * 2 powi e)"

fun js_mul :: "number \<Rightarrow> number \<Rightarrow> number" where
  "js_mul (Num a) (Num b) = Num (to_double (a * b))"
| "js_mul _ _ = NaN"

text \<open>
  Every divisor in the script is a non-zero constant (\<^verbatim>\<open>60\<close>, \<^verbatim>\<open>100\<close>) or a duration
  that was tested truthy first, so the quotient by zero (an infinity in JavaScript) is
  never computed; the model gives \<^verbatim>\<open>NaN\<close> there.
\<close>

fun js_div :: "number \<Rightarrow> number \<Rightarrow> number" where
  "js_div (Num a) (Num b) = (if b = 0 then NaN else Num (to_double (a / b)))"
| "js_div _ _ = NaN"

definition js_trunc :: "real \<Rightarrow> int" where
  "js_trunc r = (if 0 \<le> r then \<lfloor>r\<rfloor> else \<lceil>r\<rceil>)"

text \<open>\<^verbatim>\<open>a % b\<close>: the remainder takes the sign of the dividend.\<close>

fun js_mod :: "number \<Rightarrow> number \<Rightarrow> number" where
  "js_mod (Num a) (Num b) = (if b = 0 then NaN else Num (a - b * of_int (js_trunc (a / b))))"
| "js_mod _ _ = NaN"

text \<open>\<^verbatim>\<open>a < b\<close>: false when either side is \<^verbatim>\<open>NaN\<close>.\<close>

fun js_lt :: "number \<Rightarrow> number \<Rightarrow> bool" where
  "js_lt (Num a) (Num b) = (a < b)"
| "js_lt _ _ = False"

text \<open>\<^verbatim>\<open>a === b\<close>: \<^verbatim>\<open>NaN\<close> is not equal to itself.\<close>

fun strict_eq :: "number \<Rightarrow> number \<Rightarrow> bool" where
  "strict_eq (Num a) (Num b) = (a = b)"
| "strict_eq _ _ = False"

text \<open>\<^verbatim>\<open>Math.max\<close>, \<^verbatim>\<open>Math.min\<close>: \<^verbatim>\<open>NaN\<close> if either argument is.\<close>

fun Math_max :: "number \<Rightarrow> number \<Rightarrow> number" where
  "Math_max (Num a) (Num b) = Num (max a b)"
| "Math_max _ _ = NaN"

fun Math_min :: "number \<Rightarrow> number \<Rightarrow> number" where
  "Math_min (Num a) (Num b) = Num (min a b)"
| "Math_min _ _ = NaN"

fun Math_floor :: "number \<Rightarrow> number" where
  "Math_floor (Num a) = Num (of_int \<lfloor>a\<rfloor>)"
| "Math_floor NaN = NaN"

fun Math_round :: "number \<Rightarrow> number" where
  "Math_round (Num a) = Num (of_int \<lfloor>a + 0.5\<rfloor>)"
| "Math_round NaN = NaN"

text \<open>\<^verbatim>\<open>Array.prototype.includes\<close> compares with SameValueZero, under which
  \<^verbatim>\<open>NaN\<close> equals itself: it is equality of the datatype.\<close>

definition array_includes :: "number list \<Rightarrow> number \<Rightarrow> bool" where
  "array_includes xs x = (x \<in> set xs)"

subsection \<open>Numbers as text\<close>

definition digit_char :: "nat \<Rightarrow> char" where
  "digit_char d = ''0123456789'' ! d"

fun nat_digits :: "nat \<Rightarrow> string" where
  "nat_digits n =
     (if n < 10 then [digit_char n] else nat_digits (n div 10) @ [digit_char (n mod 10)])"

declare nat_digits.simps [simp del]

fun frac_digits :: "nat \<Rightarrow> real \<Rightarrow> string" where
  "frac_digits 0 r = []"
| "frac_digits (Suc n) r =
     (if r = 0 then []
      else digit_char (nat \<lfloor>r * 10\<rfloor>) # frac_digits n (r * 10 - of_int \<lfloor>r * 10\<rfloor>))"

text \<open>
  \<^verbatim>\<open>Number.prototype.toString\<close>, in positional decimal notation: sign, integer digits
  and, for a non-integer, the point and the fraction digits. This is what JavaScript
  prints for \<^verbatim>\<open>NaN\<close>, for integers below \<^verbatim>\<open>1e21\<close> and for numbers whose decimal
  expansion ends within 17 digits (the rates \<^verbatim>\<open>0.5\<close>, \<^verbatim>\<open>0.75\<close>, ... and the
  minutes and seconds of a time label); for other values JavaScript prints the shortest
  decimal that reads back as the same double, which is a property of the rounding and is
  not modelled.
\<close>

definition toString :: "number \<Rightarrow> string" where
  "toString x =
     (case x of
        NaN \<Rightarrow> ''NaN''
      | Num r \<Rightarrow>
          (if r < 0 then ''-'' else '''') @ nat_digits (nat \<lfloor>\<bar>r\<bar>\<rfloor>) @
          (if frac \<bar>r\<bar> = 0 then '''' else ''.'' @ frac_digits 17 (frac \<bar>r\<bar>)))"

definition bool_toString :: "bool \<Rightarrow> string" where
  "bool_toString b = (if b then ''true'' else ''false'')"

definition padStart :: "nat \<Rightarrow> char \<Rightarrow> string \<Rightarrow> string" where
  "padStart n c s = replicate (n - length s) c @ s"

text \<open>
  \<^verbatim>\<open>parseInt\<close> of a property that holds a number in decimal notation: the digits
  before the point, that is the number truncated towards zero.
\<close>

fun parseInt :: "number \<Rightarrow> number" where
  "parseInt (Num r) = Num (of_int (js_trunc r))"
| "parseInt NaN = NaN"

subsection \<open>Constants\<close>

definition SEEK_JUMP :: number where
  "SEEK_JUMP = Num 10"

definition VOLUME_JUMP :: number where
  "VOLUME_JUMP = Num (to_double 0.05)"

definition SUPPORTED_SPEEDS :: "number list" where
  "SUPPORTED_SPEEDS =
     [Num 0.5, Num 0.75, Num 1, Num 1.25, Num 1.5, Num 1.75, Num 2]"

subsection \<open>formatTime\<close>

definition formatTime :: "number \<Rightarrow> string" where
  "formatTime seconds =
     (if isNaN seconds \<or> js_lt seconds (Num 0) then ''00:00''
      else
        let mins = Math_floor (js_div seconds (Num 60));
            secs = Math_floor (js_mod seconds (Num 60))
        in padStart 2 CHR ''0'' (toString mins) @ '':'' @ padStart 2 CHR ''0'' (toString secs))"

subsection \<open>The page and the audio element\<close>

text \<open>
  A page element, with the properties the script reads or writes: the class list, the
  text content, the attributes set through \<^verbatim>\<open>setAttribute\<close>, the inline style, and
  for an input its \<^verbatim>\<open>value\<close>. The two string properties that hold a number, the
  \<^verbatim>\<open>value\<close> of a slider and the \<^verbatim>\<open>data-speed\<close> of a speed option, are kept as
  that number: the script writes them with \<^verbatim>\<open>toString\<close> and reads them back with
  \<^verbatim>\<open>parseFloat\<close>, which returns the number written. \<^verbatim>\<open>data_speed\<close> is
  \<^verbatim>\<open>None\<close> for an element without the attribute.
\<close>

record element =
  classList :: "string list"
  textContent :: string
  attributes :: "(string \<times> string) list"
  style :: "(string \<times> string) list"
  slider_value :: number
  data_speed :: "number option"

text \<open>The audio element: the properties of \<^verbatim>\<open>HTMLAudioElement\<close> the script uses.\<close>

record HTMLAudioElement =
  currentTime :: number
  duration :: number
  paused :: bool
  volume :: number
  muted :: bool
  playbackRate :: number

record PlayerState =
  isPlaying :: bool
  isMuted :: bool
  volume :: number
  playbackRate :: number
  isSeeking :: bool
  lastVolume :: number

text \<open>
  Everything the handlers share. \<^verbatim>\<open>getElementById\<close> returns \<^verbatim>\<open>null\<close> for a missing
  element, so an element is optional, except the audio element and the play button: the
  callback returns at line 29, before any function or handler exists, when one of the two
  is missing, and the \<^verbatim>\<open>const\<close> bindings never change afterwards. For that reason the
  \<^verbatim>\<open>if (!audioElement) return\<close> at the head of the functions never fires and has no
  branch in the model. \<^verbatim>\<open>speedOptions\<close> is the result of
  \<^verbatim>\<open>document.querySelectorAll('.speed-option')\<close>. \<^verbatim>\<open>timeouts\<close> holds the ids of
  the pending \<^verbatim>\<open>setTimeout\<close> callbacks of \<^verbatim>\<open>showFeedback\<close>, \<^verbatim>\<open>nextTimeoutId\<close>
  the id the next \<^verbatim>\<open>setTimeout\<close> returns, and \<^verbatim>\<open>feedbackTimeout\<close> is
  \<^verbatim>\<open>feedbackEl.dataset.timeout\<close>. Writes to the console are not modelled.
\<close>

record player =
  audioElement :: HTMLAudioElement
  playPauseBtn :: element
  playIcon :: "element option"
  pauseIcon :: "element option"
  currentTimeEl :: "element option"
  progressBar :: "element option"
  seekSlider :: "element option"
  volumeBtn :: "element option"
  volumeIcon :: "element option"
  muteIcon :: "element option"
  volumeSlider :: "element option"
  feedbackEl :: "element option"
  feedbackText :: "element option"
  speedButton :: "element option"
  speedMenu :: "element option"
  speedOptions :: "element list"
  state :: PlayerState
  feedbackTimeout :: "nat option"
  timeouts :: "nat list"
  nextTimeoutId :: nat

subsection \<open>Operations of the page\<close>

definition classList_add :: "string \<Rightarrow> element \<Rightarrow> element" where
  "classList_add c e =
     (if c \<in> set (classList e) then e else e\<lparr>classList := classList e @ [c]\<rparr>)"

definition classList_remove :: "string \<Rightarrow> element \<Rightarrow> element" where
  "classList_remove c e = e\<lparr>classList := removeAll c (classList e)\<rparr>"

definition classList_contains :: "string \<Rightarrow> element \<Rightarrow> bool" where
  "classList_contains c e = (c \<in> set (classList e))"

text \<open>\<^verbatim>\<open>classList.toggle(c, force)\<close>: add when \<^verbatim>\<open>force\<close> is true, remove otherwise.\<close>

definition classList_toggle :: "string \<Rightarrow> bool \<Rightarrow> element \<Rightarrow> element" where
  "classList_toggle c force e = (if force then classList_add c e else classList_remove c e)"

text \<open>\<^verbatim>\<open>classList.toggle(c)\<close>: flip, and return whether the class is now present.\<close>

definition classList_flip :: "string \<Rightarrow> element \<Rightarrow> bool \<times> element" where
  "classList_flip c e =
     (if classList_contains c e then (False, classList_remove c e)
      else (True, classList_add c e))"

definition setAttribute :: "string \<Rightarrow> string \<Rightarrow> element \<Rightarrow> element" where
  "setAttribute name v e = e\<lparr>attributes := AList.update name v (attributes e)\<rparr>"

definition getAttribute :: "string \<Rightarrow> element \<Rightarrow> string option" where
  "getAttribute name e = map_of (attributes e) name"

definition set_style :: "string \<Rightarrow> string \<Rightarrow> element \<Rightarrow> element" where
  "set_style name v e = e\<lparr>style := AList.update name v (style e)\<rparr>"

definition get_style :: "string \<Rightarrow> element \<Rightarrow> string option" where
  "get_style name e = map_of (style e) name"

text \<open>Assigning \<^verbatim>\<open>className\<close> replaces the class list by the words of the string.\<close>

fun tokens :: "string \<Rightarrow> string \<Rightarrow> string list" where
  "tokens acc [] = (if acc = [] then [] else [acc])"
| "tokens acc (c # cs) =
     (if c = CHR '' '' then (if acc = [] then tokens [] cs else acc # tokens [] cs)
      else tokens (acc @ [c]) cs)"

definition set_className :: "string \<Rightarrow> element \<Rightarrow> element" where
  "set_className s e = e\<lparr>classList := tokens [] s\<rparr>"

subsection \<open>The media primitive\<close>

text \<open>
  \<^verbatim>\<open>play()\<close> and \<^verbatim>\<open>pause()\<close> belong to the browser. \<^verbatim>\<open>pause()\<close> is synchronous and
  leaves the element paused. \<^verbatim>\<open>play()\<close> returns a promise, and what the call does
  to the \<^verbatim>\<open>paused\<close> flag depends on the outcome: a request that is fulfilled, or
  rejected only later (the media fails to load), has set the flag to false when the call
  returns; a request rejected at once (the page is not allowed to play) leaves the flag
  true. A \<^verbatim>\<open>play()\<close> that throws instead of returning a promise is the fourth
  outcome; the \<^verbatim>\<open>try\<close> of \<^verbatim>\<open>togglePlayPause\<close> is there for it.
\<close>

datatype play_outcome = Fulfilled | RejectedAtOnce | RejectedLater | Throws

datatype exn = PlayException | UnhandledRejection | TypeError

definition rejected :: "play_outcome \<Rightarrow> bool" where
  "rejected outcome = (outcome = RejectedAtOnce \<or> outcome = RejectedLater)"

definition media_play :: "play_outcome \<Rightarrow> HTMLAudioElement \<Rightarrow> HTMLAudioElement" where
  "media_play outcome a =
     (case outcome of
        Fulfilled \<Rightarrow> a\<lparr>paused := False\<rparr>
      | RejectedLater \<Rightarrow> a\<lparr>paused := False\<rparr>
      | RejectedAtOnce \<Rightarrow> a
      | Throws \<Rightarrow> a)"

definition media_pause :: "HTMLAudioElement \<Rightarrow> HTMLAudioElement" where
  "media_pause a = a\<lparr>paused := True\<rparr>"

text \<open>
  The setters of \<^verbatim>\<open>volume\<close> and \<^verbatim>\<open>currentTime\<close> take a finite number and throw a
  \<^verbatim>\<open>TypeError\<close> for \<^verbatim>\<open>NaN\<close>, leaving the property as it was.
\<close>

definition set_volume :: "number \<Rightarrow> HTMLAudioElement \<Rightarrow> exn + HTMLAudioElement" where
  "set_volume v a = (if isNaN v then Inl TypeError else Inr (a\<lparr>HTMLAudioElement.volume := v\<rparr>))"

definition set_currentTime :: "number \<Rightarrow> HTMLAudioElement \<Rightarrow> exn + HTMLAudioElement" where
  "set_currentTime t a = (if isNaN t then Inl TypeError else Inr (a\<lparr>currentTime := t\<rparr>))"

subsection \<open>createSpeedControl\<close>

text \<open>
  The speed options that \<^verbatim>\<open>createSpeedControl\<close> writes into the page, one per
  supported speed; the text of an option is given without the white space of the
  template around it.
\<close>

definition speed_option :: "number \<Rightarrow> element" where
  "speed_option speed =
     \<lparr>classList =
        tokens [] (''speed-option w-full text-left px-3 py-2 text-sm text-his-text hover:bg-his-green/20 transition-colors '' @
          (if strict_eq speed (Num 1) then ''bg-his-green/30 text-his-green'' else [])),
      textContent = toString speed @ ''x'',
      attributes =
        [(''role'', ''menuitemradio''),
         (''aria-checked'', bool_toString (strict_eq speed (Num 1))),
         (''tabindex'', ''-1'')],
      style = [],
      slider_value = NaN,
      data_speed = Some speed\<rparr>"

definition createSpeedControl_options :: "element list" where
  "createSpeedControl_options = map speed_option SUPPORTED_SPEEDS"

subsection \<open>Player functions\<close>

datatype feedback_type = Info | Error

definition showFeedback :: "string \<Rightarrow> feedback_type \<Rightarrow> player \<Rightarrow> player" where
  "showFeedback message type p =
     (case (feedbackEl p, feedbackText p) of
        (Some el, Some txt) \<Rightarrow>
          let cleared =
                (case feedbackTimeout p of
                   Some existingTimeout \<Rightarrow> removeAll existingTimeout (timeouts p)
                 | None \<Rightarrow> timeouts p);
              timeoutId = nextTimeoutId p
          in p\<lparr>feedbackText := Some (txt\<lparr>textContent := message\<rparr>),
               feedbackEl :=
                 Some (set_style ''opacity'' ''1''
                   (set_className
                      (''absolute -top-12 left-1/2 -translate-x-1/2 px-4 py-2 rounded-lg backdrop-blur-sm transition-opacity duration-300 '' @
                         (if type = Error then ''bg-red-500/20 text-red-300''
                          else ''bg-his-hover/90 text-his-text''))
                      el)),
               timeouts := cleared @ [timeoutId],
               nextTimeoutId := Suc timeoutId,
               feedbackTimeout := Some timeoutId\<rparr>
      | _ \<Rightarrow> p)"

text \<open>The callback of the timer that \<^verbatim>\<open>showFeedback\<close> starts, when it fires.\<close>

definition feedback_timeout_fires :: "nat \<Rightarrow> player \<Rightarrow> player" where
  "feedback_timeout_fires timeoutId p =
     (if timeoutId \<in> set (timeouts p)
      then p\<lparr>feedbackEl := map_option (set_style ''opacity'' ''0'') (feedbackEl p),
             timeouts := removeAll timeoutId (timeouts p)\<rparr>
      else p)"

definition updateProgress :: "player \<Rightarrow> player" where
  "updateProgress p =
     (if isSeeking (state p) then p
      else
        let currentTime' = currentTime (audioElement p);
            duration' = js_or (duration (audioElement p)) (Num 0);
            progressPercent =
              (if truthy duration' then js_mul (js_div currentTime' duration') (Num 100)
               else Num 0)
        in p\<lparr>currentTimeEl :=
               map_option
                 (\<lambda>e. setAttribute ''datetime'' (''PT'' @ toString currentTime' @ ''S'')
                        (e\<lparr>textContent := formatTime currentTime'\<rparr>))
                 (currentTimeEl p),
             progressBar :=
               map_option
                 (\<lambda>e. setAttribute ''aria-valuenow'' (toString progressPercent)
                        (set_style ''width'' (toString progressPercent @ ''%'') e))
                 (progressBar p),
             seekSlider :=
               map_option (\<lambda>e. e\<lparr>slider_value := progressPercent\<rparr>) (seekSlider p)\<rparr>)"

definition updatePlayPauseIcon :: "player \<Rightarrow> player" where
  "updatePlayPauseIcon p =
     (case (playIcon p, pauseIcon p) of
        (Some play, Some pause) \<Rightarrow>
          let isPlaying' = \<not> paused (audioElement p)
          in p\<lparr>state := (state p)\<lparr>isPlaying := isPlaying'\<rparr>,
               playIcon :=
                 Some (classList_toggle ''hidden'' (\<not> paused (audioElement p)) play),
               pauseIcon :=
                 Some (classList_toggle ''hidden'' (paused (audioElement p)) pause),
               playPauseBtn :=
                 setAttribute ''aria-label'' (if isPlaying' then ''Pause'' else ''Play'')
                   (playPauseBtn p)\<rparr>
      | _ \<Rightarrow> p)"

text \<open>
  The block inside \<^verbatim>\<open>try\<close>: an exception leaves it with \<^verbatim>\<open>Inl\<close>. A returned
  promise settles later, see \<^verbatim>\<open>play_settled\<close>.
\<close>

definition togglePlayPause_try :: "play_outcome \<Rightarrow> player \<Rightarrow> exn + player" where
  "togglePlayPause_try outcome p =
     (if paused (audioElement p) then
        (case outcome of
           Throws \<Rightarrow> Inl PlayException
         | _ \<Rightarrow>
             Inr (updatePlayPauseIcon (p\<lparr>audioElement := media_play outcome (audioElement p)\<rparr>)))
      else Inr (updatePlayPauseIcon (p\<lparr>audioElement := media_pause (audioElement p)\<rparr>)))"

definition togglePlayPause :: "play_outcome \<Rightarrow> player \<Rightarrow> exn + player" where
  "togglePlayPause outcome p =
     (case togglePlayPause_try outcome p of
        Inl error \<Rightarrow> Inr p
      | Inr p' \<Rightarrow> Inr p')"

text \<open>The handler given to \<^verbatim>\<open>.catch\<close> (lines 163 to 166).\<close>

definition play_catch :: "player \<Rightarrow> player" where
  "play_catch p = showFeedback ''Playback failed'' Error p"

text \<open>
  The promise of \<^verbatim>\<open>play()\<close> settles after the call has returned: a rejection runs
  the handler attached with \<^verbatim>\<open>.catch\<close>.
\<close>

definition play_settled :: "play_outcome \<Rightarrow> player \<Rightarrow> exn + player" where
  "play_settled outcome p =
     (if rejected outcome then Inr (play_catch p) else Inr p)"

text \<open>
  One call of \<^verbatim>\<open>togglePlayPause\<close> with the outcome of the request it makes: the
  call, then, when it asked the element to play, the settling of the promise.
\<close>

definition togglePlayPause_settled :: "play_outcome \<Rightarrow> player \<Rightarrow> exn + player" where
  "togglePlayPause_settled outcome p =
     (case togglePlayPause outcome p of
        Inl error \<Rightarrow> Inl error
      | Inr p' \<Rightarrow> if paused (audioElement p) then play_settled outcome p' else Inr p')"

definition mark_speed_option :: "number \<Rightarrow> element \<Rightarrow> element" where
  "mark_speed_option speed option =
     (let optionSpeed = (case data_speed option of None \<Rightarrow> Num 1 | Some s \<Rightarrow> s);
          isActive = strict_eq optionSpeed speed
      in setAttribute ''aria-checked'' (bool_toString isActive)
           (classList_toggle ''text-his-green'' isActive
              (classList_toggle ''bg-his-green/30'' isActive option)))"

definition setPlaybackSpeed :: "number \<Rightarrow> player \<Rightarrow> player" where
  "setPlaybackSpeed speed p =
     (if \<not> array_includes SUPPORTED_SPEEDS speed then p
      else
        let p1 = p\<lparr>audioElement := (audioElement p)\<lparr>HTMLAudioElement.playbackRate := speed\<rparr>,
                   state := (state p)\<lparr>PlayerState.playbackRate := speed\<rparr>,
                   speedButton :=
                     map_option
                       (\<lambda>b. setAttribute ''aria-label'' (''Playback speed: '' @ toString speed @ ''x'')
                              (b\<lparr>textContent := toString speed @ ''x''\<rparr>))
                       (speedButton p),
                   speedOptions := map (mark_speed_option speed) (speedOptions p)\<rparr>;
            p2 = showFeedback (''Speed: '' @ toString speed @ ''x'') Info p1
        in (case speedMenu p2 of
              None \<Rightarrow> p2
            | Some menu \<Rightarrow>
                p2\<lparr>speedMenu := Some (classList_add ''hidden'' menu),
                   speedButton :=
                     map_option (setAttribute ''aria-expanded'' ''false'') (speedButton p2)\<rparr>))"

definition updateVolumeSliderBackground :: "player \<Rightarrow> player" where
  "updateVolumeSliderBackground p =
     (case volumeSlider p of
        None \<Rightarrow> p
      | Some slider \<Rightarrow>
          let v = toString (slider_value slider)
          in p\<lparr>volumeSlider :=
                 Some (set_style ''background''
                   (''linear-gradient(to right, rgba(255, 255, 255, 0.4) '' @ v @
                    ''%, rgba(255, 255, 255, 0.2) '' @ v @ ''%)'') slider)\<rparr>)"

text \<open>An exception ends the function where it is thrown: line 247 throws for
  \<^verbatim>\<open>NaN\<close>, before anything is written.\<close>

definition updateVolume :: "number \<Rightarrow> player \<Rightarrow> exn + player" where
  "updateVolume vol p =
     (let clampedVolume = Math_max (Num 0) (Math_min (Num 1) vol)
      in case set_volume clampedVolume (audioElement p) of
           Inl error \<Rightarrow> Inl error
         | Inr a \<Rightarrow>
             let isMuted' = strict_eq clampedVolume (Num 0);
                 p1 = p\<lparr>audioElement := a\<lparr>muted := isMuted'\<rparr>,
                        state :=
                          (state p)\<lparr>PlayerState.volume := clampedVolume, isMuted := isMuted'\<rparr>\<rparr>;
                 p2 = (case (volumeIcon p1, muteIcon p1) of
                         (Some vi, Some mi) \<Rightarrow>
                           p1\<lparr>volumeIcon := Some (classList_toggle ''hidden'' isMuted' vi),
                              muteIcon := Some (classList_toggle ''hidden'' (\<not> isMuted') mi)\<rparr>
                       | _ \<Rightarrow> p1);
                 p3 = (case volumeSlider p2 of
                         None \<Rightarrow> p2
                       | Some slider \<Rightarrow>
                           updateVolumeSliderBackground
                             (p2\<lparr>volumeSlider :=
                                   Some (slider\<lparr>slider_value :=
                                     js_mul clampedVolume (Num 100)\<rparr>)\<rparr>))
             in Inr (p3\<lparr>volumeBtn :=
                        map_option
                          (setAttribute ''aria-label'' (if isMuted' then ''Unmute'' else ''Mute''))
                          (volumeBtn p3)\<rparr>))"

subsection \<open>Event listeners\<close>

text \<open>
  A listener registered with \<^verbatim>\<open>x?.addEventListener\<close> exists only when the element
  \<^verbatim>\<open>x\<close> does; without the element the event never fires and the page stays as it is.
\<close>

definition audio_play_event :: "player \<Rightarrow> player" where
  "audio_play_event p = updatePlayPauseIcon p"

definition audio_pause_event :: "player \<Rightarrow> player" where
  "audio_pause_event p = updatePlayPauseIcon p"

definition audio_timeupdate_event :: "player \<Rightarrow> player" where
  "audio_timeupdate_event p = updateProgress p"

definition audio_ended_event :: "player \<Rightarrow> player" where
  "audio_ended_event p = updatePlayPauseIcon (showFeedback ''Playback completed'' Info p)"

text \<open>
  The \<^verbatim>\<open>input\<close> listener of the seek slider is \<^verbatim>\<open>debounce(body, 100)\<close>: every
  event restarts a timer of 100 ms, and \<^verbatim>\<open>body\<close> runs when the timer fires, reading
  the slider at that moment. \<^verbatim>\<open>seekSlider_input\<close> is that body.
\<close>

definition seekSlider_input :: "player \<Rightarrow> player" where
  "seekSlider_input p =
     (case seekSlider p of
        None \<Rightarrow> p
      | Some slider \<Rightarrow>
          let v = slider_value slider;
              duration' = js_or (duration (audioElement p)) (Num 0);
              currentTime' = js_mul (js_div v (Num 100)) duration'
          in p\<lparr>state := (state p)\<lparr>isSeeking := True\<rparr>,
               currentTimeEl :=
                 map_option (\<lambda>e. e\<lparr>textContent := formatTime currentTime'\<rparr>) (currentTimeEl p),
               progressBar :=
                 map_option (set_style ''width'' (toString v @ ''%'')) (progressBar p)\<rparr>)"

definition seekSlider_change :: "player \<Rightarrow> player" where
  "seekSlider_change p =
     (case seekSlider p of
        None \<Rightarrow> p
      | Some slider \<Rightarrow>
          let v = slider_value slider;
              duration' = js_or (duration (audioElement p)) (Num 0);
              p1 = p\<lparr>audioElement :=
                       (audioElement p)\<lparr>currentTime := js_mul (js_div v (Num 100)) duration'\<rparr>,
                     state := (state p)\<lparr>isSeeking := False\<rparr>\<rparr>
          in showFeedback (''Jumped to '' @ formatTime (currentTime (audioElement p1))) Info p1)"

definition volumeBtn_click :: "player \<Rightarrow> exn + player" where
  "volumeBtn_click p =
     (case volumeBtn p of
        None \<Rightarrow> Inr p
      | Some btn \<Rightarrow>
          (case (if isMuted (state p)
                 then updateVolume (js_or (lastVolume (state p)) (Num 0.5)) p
                 else updateVolume (Num 0)
                        (p\<lparr>state :=
                             (state p)\<lparr>lastVolume :=
                               HTMLAudioElement.volume (audioElement p)\<rparr>\<rparr>)) of
             Inl error \<Rightarrow> Inl error
           | Inr p1 \<Rightarrow> Inr (p1\<lparr>state := (state p1)\<lparr>isMuted := \<not> isMuted (state p1)\<rparr>\<rparr>)))"

definition volumeSlider_input :: "player \<Rightarrow> exn + player" where
  "volumeSlider_input p =
     (case volumeSlider p of
        None \<Rightarrow> Inr p
      | Some slider \<Rightarrow> updateVolume (js_div (parseInt (slider_value slider)) (Num 100)) p)"

definition speedButton_click :: "player \<Rightarrow> player" where
  "speedButton_click p =
     (case (speedButton p, speedMenu p) of
        (Some btn, Some menu) \<Rightarrow>
          let (isExpanded, menu') = classList_flip ''hidden'' menu
          in p\<lparr>speedMenu := Some menu',
               speedButton :=
                 Some (setAttribute ''aria-expanded'' (bool_toString (\<not> isExpanded)) btn)\<rparr>
      | _ \<Rightarrow> p)"

text \<open>
  The \<^verbatim>\<open>click\<close> listener of the document. A click on a speed option sets the speed
  the option carries (\<^verbatim>\<open>parseFloat(target.dataset.speed || '1')\<close>); a click on an
  element outside the speed menu and the speed button closes the menu. The click on
  the speed button itself does not reach this listener (\<^verbatim>\<open>stopPropagation\<close>).
\<close>

definition document_click_speed_option :: "element \<Rightarrow> player \<Rightarrow> player" where
  "document_click_speed_option target p =
     setPlaybackSpeed (case data_speed target of None \<Rightarrow> Num 1 | Some s \<Rightarrow> s) p"

definition document_click_elsewhere :: "player \<Rightarrow> player" where
  "document_click_elsewhere p =
     (case speedMenu p of
        None \<Rightarrow> p
      | Some menu \<Rightarrow>
          p\<lparr>speedMenu := Some (classList_add ''hidden'' menu),
            speedButton :=
              map_option (setAttribute ''aria-expanded'' ''false'') (speedButton p)\<rparr>)"

subsection \<open>Keyboard shortcuts\<close>

text \<open>
  What the \<^verbatim>\<open>keydown\<close> listener reads of the event: the key, and of the target its
  tag name, whether it is content-editable, and whether it lies inside an element with
  \<^verbatim>\<open>role="textbox"\<close>. \<^verbatim>\<open>preventDefault\<close> concerns the browser only.
\<close>

record KeyboardEvent =
  key :: string
  targetTagName :: string
  targetIsContentEditable :: bool
  targetInTextbox :: bool

text \<open>\<^verbatim>\<open>toLowerCase\<close>, on the ASCII letters.\<close>

definition lower_char :: "char \<Rightarrow> char" where
  "lower_char c =
     (let n = (of_char c :: nat) in if 65 \<le> n \<and> n \<le> 90 then char_of (n + 32) else c)"

definition toLowerCase :: "string \<Rightarrow> string" where
  "toLowerCase s = map lower_char s"

definition key_space :: "play_outcome \<Rightarrow> player \<Rightarrow> exn + player" where
  "key_space outcome p =
     (case togglePlayPause outcome p of
        Inl error \<Rightarrow> Inl error
      | Inr p' \<Rightarrow>
          Inr (showFeedback (if paused (audioElement p') then ''Paused'' else ''Playing'') Info p'))"

text \<open>
  \<^verbatim>\<open>volumeBtn?.click()\<close> fires the listener of the mute button and then, as the click
  bubbles, the listener of the document; the mute button lies outside the speed menu.
\<close>

definition key_m :: "player \<Rightarrow> exn + player" where
  "key_m p =
     (case volumeBtn p of
        None \<Rightarrow> Inr p
      | Some btn \<Rightarrow>
          (case volumeBtn_click p of
             Inl error \<Rightarrow> Inl error
           | Inr p' \<Rightarrow> Inr (document_click_elsewhere p')))"

definition key_j :: "player \<Rightarrow> player" where
  "key_j p =
     (let p1 = p\<lparr>audioElement :=
                   (audioElement p)\<lparr>currentTime :=
                      Math_max (Num 0) (js_sub (currentTime (audioElement p)) SEEK_JUMP)\<rparr>\<rparr>
      in showFeedback
           (''-'' @ toString SEEK_JUMP @ ''s ('' @ formatTime (currentTime (audioElement p1)) @ '')'')
           Info p1)"

definition key_k :: "player \<Rightarrow> player" where
  "key_k p =
     (let p1 = p\<lparr>audioElement :=
                   (audioElement p)\<lparr>currentTime :=
                      Math_min (js_or (duration (audioElement p)) (Num 0))
                        (js_add (currentTime (audioElement p)) SEEK_JUMP)\<rparr>\<rparr>
      in showFeedback
           (''+'' @ toString SEEK_JUMP @ ''s ('' @ formatTime (currentTime (audioElement p1)) @ '')'')
           Info p1)"

definition key_l :: "player \<Rightarrow> player" where
  "key_l p = speedButton_click p"

definition key_arrowup :: "player \<Rightarrow> exn + player" where
  "key_arrowup p =
     (case volumeSlider p of
        None \<Rightarrow> Inr p
      | Some slider \<Rightarrow>
          let newVolume =
                Math_min (Num 1) (js_add (HTMLAudioElement.volume (audioElement p)) VOLUME_JUMP)
          in case updateVolume newVolume p of
               Inl error \<Rightarrow> Inl error
             | Inr p' \<Rightarrow>
                 Inr (showFeedback
                   (''Volume: '' @ toString (Math_round (js_mul newVolume (Num 100))) @ ''%'')
                   Info p'))"

definition key_arrowdown :: "player \<Rightarrow> exn + player" where
  "key_arrowdown p =
     (case volumeSlider p of
        None \<Rightarrow> Inr p
      | Some slider \<Rightarrow>
          let newVolume =
                Math_max (Num 0) (js_sub (HTMLAudioElement.volume (audioElement p)) VOLUME_JUMP)
          in case updateVolume newVolume p of
               Inl error \<Rightarrow> Inl error
             | Inr p' \<Rightarrow>
                 Inr (showFeedback
                   (''Volume: '' @ toString (Math_round (js_mul newVolume (Num 100))) @ ''%'')
                   Info p'))"

definition key_home :: "player \<Rightarrow> player" where
  "key_home p =
     showFeedback ''Start'' Info (p\<lparr>audioElement := (audioElement p)\<lparr>currentTime := Num 0\<rparr>\<rparr>)"

definition key_end :: "player \<Rightarrow> player" where
  "key_end p =
     (if \<not> isNaN (duration (audioElement p))
      then showFeedback ''End'' Info
             (p\<lparr>audioElement :=
                  (audioElement p)\<lparr>currentTime := duration (audioElement p)\<rparr>\<rparr>)
      else p)"

text \<open>
  The listener, with the outcome of a play request it may make and the value of
  \<^verbatim>\<open>document.hasFocus()\<close>.
\<close>

definition keydown :: "play_outcome \<Rightarrow> bool \<Rightarrow> KeyboardEvent \<Rightarrow> player \<Rightarrow> exn + player" where
  "keydown outcome hasFocus e p =
     (if targetTagName e = ''INPUT'' \<or> targetTagName e = ''TEXTAREA'' \<or>
         targetIsContentEditable e \<or> targetInTextbox e
      then Inr p
      else if \<not> hasFocus then Inr p
      else
        let k = toLowerCase (key e)
        in if k = '' '' then key_space outcome p
           else if k = ''m'' then key_m p
           else if k = ''j'' then Inr (key_j p)
           else if k = ''k'' then Inr (key_k p)
           else if k = ''l'' then Inr (key_l p)
           else if k = ''arrowup'' then key_arrowup p
           else if k = ''arrowdown'' then key_arrowdown p
           else if k = ''home'' then Inr (key_home p)
           else if k = ''end'' then Inr (key_end p)
           else Inr p)"

subsection \<open>The control surface on \<^verbatim>\<open>window.audioPlayer\<close>\<close>

definition seekTo :: "number \<Rightarrow> player \<Rightarrow> exn + player" where
  "seekTo time p =
     (case set_currentTime time (audioElement p) of
        Inl error \<Rightarrow> Inl error
      | Inr a \<Rightarrow> Inr (p\<lparr>audioElement := a\<rparr>))"

definition setSpeed :: "number \<Rightarrow> player \<Rightarrow> player" where
  "setSpeed speed p = setPlaybackSpeed speed p"

subsection \<open>The variant of the script in \<^verbatim>\<open>src/unnamed/part_000\<close>\<close>

text \<open>
  The variant keeps no \<^verbatim>\<open>PlayerState\<close>; its functions run on the same page record
  and leave the \<^verbatim>\<open>state\<close> field alone. In its \<^verbatim>\<open>togglePlayPause\<close> the branch for a
  playing element is the expression statement \<^verbatim>\<open>audioElement.paused;\<close>, which reads
  the property and drops the value. There is no \<^verbatim>\<open>try\<close> and no \<^verbatim>\<open>.catch\<close>.
\<close>

definition variant_updatePlayPauseIcon :: "player \<Rightarrow> player" where
  "variant_updatePlayPauseIcon p =
     (case (playIcon p, pauseIcon p) of
        (Some play, Some pause) \<Rightarrow>
          if paused (audioElement p)
          then p\<lparr>playIcon := Some (classList_remove ''hidden'' play),
                 pauseIcon := Some (classList_add ''hidden'' pause)\<rparr>
          else p\<lparr>playIcon := Some (classList_add ''hidden'' play),
                 pauseIcon := Some (classList_remove ''hidden'' pause)\<rparr>
      | _ \<Rightarrow> p)"

definition variant_togglePlayPause :: "play_outcome \<Rightarrow> player \<Rightarrow> exn + player" where
  "variant_togglePlayPause outcome p =
     (if paused (audioElement p) then
        (case outcome of
           Throws \<Rightarrow> Inl PlayException
         | _ \<Rightarrow>
             Inr (variant_updatePlayPauseIcon
                    (p\<lparr>audioElement := media_play outcome (audioElement p)\<rparr>)))
      else Inr (variant_updatePlayPauseIcon p))"

definition variant_play_settled :: "play_outcome \<Rightarrow> player \<Rightarrow> exn + player" where
  "variant_play_settled outcome p =
     (if rejected outcome then Inl UnhandledRejection else Inr p)"

subsection \<open>Reading the page\<close>

text \<open>An element is shown when it does not carry the class \<^verbatim>\<open>hidden\<close>.\<close>

definition visible :: "element \<Rightarrow> bool" where
  "visible e = (\<not> classList_contains ''hidden'' e)"

text \<open>A speed option is checked when its \<^verbatim>\<open>aria-checked\<close> attribute is \<^verbatim>\<open>true\<close>.\<close>

definition checked :: "element \<Rightarrow> bool" where
  "checked e = (getAttribute ''aria-checked'' e = Some ''true'')"

subsection \<open>A page to run the player on\<close>

text \<open>
  A page with every element present, the audio element paused at 3 s of 120 s with volume
  0.8, and the seek slider at 50.
\<close>

definition blank_element :: element where
  "blank_element =
     \<lparr>classList = [], textContent = [], attributes = [], style = [],
      slider_value = NaN, data_speed = None\<rparr>"

definition example_page :: player where
  "example_page =
     \<lparr>audioElement =
        \<lparr>currentTime = Num 3, duration = Num 120, paused = True,
         volume = Num 0.8, muted = False, playbackRate = Num 1\<rparr>,
      playPauseBtn = blank_element,
      playIcon = Some blank_element,
      pauseIcon = Some (blank_element\<lparr>classList := [''hidden'']\<rparr>),
      currentTimeEl = Some blank_element,
      progressBar = Some blank_element,
      seekSlider = Some (blank_element\<lparr>slider_value := Num 50\<rparr>),
      volumeBtn = Some blank_element,
      volumeIcon = Some blank_element,
      muteIcon = Some (blank_element\<lparr>classList := [''hidden'']\<rparr>),
      volumeSlider = Some (blank_element\<lparr>slider_value := Num 80\<rparr>),
      feedbackEl = Some blank_element,
      feedbackText = Some blank_element,
      speedButton = Some (blank_element\<lparr>textContent := ''1x''\<rparr>),
      speedMenu = Some (blank_element\<lparr>classList := [''hidden'']\<rparr>),
      speedOptions = createSpeedControl_options,
      state =
        \<lparr>isPlaying = False, isMuted = False, volume = Num 0.8, playbackRate = Num 1,
         isSeeking = False, lastVolume = Num 0.5\<rparr>,
      feedbackTimeout = None,
      timeouts = [],
      nextTimeoutId = 1\<rparr>"

text \<open>The same page with a duration of 200 s, and with the audio element playing.\<close>

definition seek_page :: player where
  "seek_page =
     example_page\<lparr>audioElement := (audioElement example_page)\<lparr>duration := Num 200\<rparr>\<rparr>"

definition playing_page :: player where
  "playing_page =
     example_page\<lparr>audioElement := (audioElement example_page)\<lparr>paused := False\<rparr>\<rparr>"


text \<open>The playing page without the play icon, and the 200 s page with the slider at 29.\<close>

definition page_without_play_icon :: player where
  "page_without_play_icon = playing_page\<lparr>playIcon := None\<rparr>"

definition seek_page_29 :: player where
  "seek_page_29 = seek_page\<lparr>seekSlider := Some (blank_element\<lparr>slider_value := Num 29\<rparr>)\<rparr>"

text \<open>The page a call returned, and the example page when the call threw.\<close>

definition returned :: "exn + player \<Rightarrow> player" where
  "returned r = (case r of Inl error \<Rightarrow> example_page | Inr p \<Rightarrow> p)"

section \<open>Properties\<close>

subsection \<open>Volume and mute\<close>

text \<open>
  C1. For every volume value \<open>v\<close>, \<^verbatim>\<open>updateVolume(v)\<close> returns normally, clamps
  \<open>v\<close> to the interval from 0 to 1, writes the clamped value to the volume of the audio
  element and of the state, and afterwards the muted flag of the audio element and
  \<^verbatim>\<open>state.isMuted\<close> are true exactly when the clamped volume is 0.
\<close>

theorem updateVolume_clamps_and_mutes:
  "\<exists>p'. updateVolume (Num v) p = Inr p' \<and>
     (let c = max 0 (min 1 v)
      in 0 \<le> c \<and> c \<le> 1 \<and>
         HTMLAudioElement.volume (audioElement p') = Num c \<and>
         PlayerState.volume (state p') = Num c \<and>
         muted (audioElement p') = (c = 0) \<and>
         isMuted (state p') = (c = 0))"
  by (simp add: updateVolume_def set_volume_def updateVolumeSliderBackground_def Let_def
      split: option.splits)

theorem updateVolume_clamps_and_mutes_witness:
  "HTMLAudioElement.volume (audioElement (returned (updateVolume (Num 1.3) example_page))) = Num 1 \<and>
   \<not> muted (audioElement (returned (updateVolume (Num 1.3) example_page))) \<and>
   HTMLAudioElement.volume (audioElement (returned (updateVolume (Num (- 2)) example_page))) = Num 0 \<and>
   muted (audioElement (returned (updateVolume (Num (- 2)) example_page))) \<and>
   isMuted (state (returned (updateVolume (Num (- 2)) example_page)))"
  using updateVolume_clamps_and_mutes [of "1.3" example_page]
    updateVolume_clamps_and_mutes [of "- 2" example_page]
  by (auto simp: Let_def returned_def)

text \<open>
  The read-back property of the specification: for \<open>v\<close> between 0 and 1 the volume is
  \<open>v\<close> itself and the element is muted exactly when \<open>v\<close> is 0.
\<close>

lemma updateVolume_in_range:
  "0 \<le> v \<Longrightarrow> v \<le> 1 \<Longrightarrow>
   \<exists>p'. updateVolume (Num v) p = Inr p' \<and>
     HTMLAudioElement.volume (audioElement p') = Num v \<and>
     muted (audioElement p') = (v = 0) \<and> isMuted (state p') = (v = 0)"
  by (simp add: updateVolume_def set_volume_def updateVolumeSliderBackground_def Let_def
      split: option.splits)

text \<open>
  \<^verbatim>\<open>NaN\<close> is not a volume: \<^verbatim>\<open>Math.min\<close> and \<^verbatim>\<open>Math.max\<close> hand it through and
  the setter of the audio element throws, before anything is written.
\<close>

lemma updateVolume_NaN: "updateVolume NaN p = Inl TypeError"
  by (simp add: updateVolume_def set_volume_def)

text \<open>
  C2. From a state with a non-zero volume \<open>v0\<close> and \<^verbatim>\<open>isMuted\<close> false, two clicks on
  the mute button with no volume change in between should restore volume \<open>v0\<close>,
  unmuted. The handler does not: \<^verbatim>\<open>updateVolume\<close> already sets \<^verbatim>\<open>state.isMuted\<close>,
  and line 332 negates it again, so after the first click the state says "not muted"
  while the element is muted, and the second click takes the muting branch once more and
  overwrites \<^verbatim>\<open>lastVolume\<close> with 0. On the example page (volume 0.8):
\<close>

theorem volumeBtn_click_twice_stays_silent:
  "\<exists>p1 p2. volumeBtn_click example_page = Inr p1 \<and> volumeBtn_click p1 = Inr p2 \<and>
      HTMLAudioElement.volume (audioElement example_page) = Num 0.8 \<and>
      \<not> isMuted (state example_page) \<and>
      HTMLAudioElement.volume (audioElement p1) = Num 0 \<and>
      muted (audioElement p1) \<and>
      \<not> isMuted (state p1) \<and>
      lastVolume (state p1) = Num 0.8 \<and>
      HTMLAudioElement.volume (audioElement p2) = Num 0 \<and>
      muted (audioElement p2) \<and>
      \<not> isMuted (state p2) \<and>
      lastVolume (state p2) = Num 0"
  by (simp add: example_page_def blank_element_def volumeBtn_click_def updateVolume_def
      set_volume_def updateVolumeSliderBackground_def Let_def js_or_def)

text \<open>The same on every page: a click in an unmuted state silences the element and
  leaves \<^verbatim>\<open>state.isMuted\<close> false, so no number of clicks brings the volume back.\<close>

lemma volumeBtn_click_unmuted:
  assumes "volumeBtn p = Some btn" and "\<not> isMuted (state p)"
  shows "\<exists>p'. volumeBtn_click p = Inr p' \<and>
     HTMLAudioElement.volume (audioElement p') = Num 0 \<and> muted (audioElement p') \<and>
     \<not> isMuted (state p') \<and>
     lastVolume (state p') = HTMLAudioElement.volume (audioElement p) \<and>
     volumeBtn p' \<noteq> None"
  using assms
  by (simp add: volumeBtn_click_def updateVolume_def set_volume_def
      updateVolumeSliderBackground_def Let_def split: option.splits)

lemma volumeBtn_click_twice_unmuted:
  assumes "volumeBtn p = Some btn" and "\<not> isMuted (state p)"
  shows "\<exists>p1 p2. volumeBtn_click p = Inr p1 \<and> volumeBtn_click p1 = Inr p2 \<and>
     HTMLAudioElement.volume (audioElement p2) = Num 0"
proof -
  obtain p1 where 1: "volumeBtn_click p = Inr p1" "\<not> isMuted (state p1)" "volumeBtn p1 \<noteq> None"
    using volumeBtn_click_unmuted [OF assms] by blast
  then obtain btn' where "volumeBtn p1 = Some btn'" by blast
  from volumeBtn_click_unmuted [OF this 1(2)] 1(1) show ?thesis by blast
qed

text \<open>
  From a state muted by \<^verbatim>\<open>updateVolume(0)\<close> (the slider at 0), a click restores
  \<^verbatim>\<open>lastVolume\<close>, 0.5 when it was never set, and leaves \<^verbatim>\<open>state.isMuted\<close> true
  although the element is no longer muted.
\<close>

lemma volumeBtn_click_muted:
  assumes "volumeBtn p = Some btn" and "isMuted (state p)"
    and "lastVolume (state p) = Num l" and "0 < l" and "l \<le> 1"
  shows "\<exists>p'. volumeBtn_click p = Inr p' \<and>
     HTMLAudioElement.volume (audioElement p') = Num l \<and>
     \<not> muted (audioElement p') \<and> isMuted (state p')"
  using assms
  by (simp add: volumeBtn_click_def updateVolume_def set_volume_def js_or_def
      updateVolumeSliderBackground_def Let_def split: option.splits)

subsection \<open>Play and pause\<close>

lemma visible_toggle [simp]: "visible (classList_toggle ''hidden'' force e) = (\<not> force)"
  by (simp add: visible_def classList_toggle_def classList_add_def classList_remove_def
      classList_contains_def)

text \<open>Without one of the two icons the refresh returns at line 177 and changes nothing,
  \<^verbatim>\<open>state.isPlaying\<close> included.\<close>

lemma updatePlayPauseIcon_without_icon:
  "playIcon p = None \<or> pauseIcon p = None \<Longrightarrow> updatePlayPauseIcon p = p"
  by (auto simp: updatePlayPauseIcon_def split: option.splits)

text \<open>
  C3, as stated: after every run of the icon refresh \<^verbatim>\<open>state.isPlaying\<close> is the
  negation of the \<^verbatim>\<open>paused\<close> flag of the audio element. On the page without the play
  icon, with the element playing and \<^verbatim>\<open>state.isPlaying\<close> false, the refresh leaves
  \<^verbatim>\<open>state.isPlaying\<close> false.
\<close>

theorem updatePlayPauseIcon_stale_without_icon:
  "\<not> paused (audioElement (updatePlayPauseIcon page_without_play_icon)) \<and>
   \<not> isPlaying (state (updatePlayPauseIcon page_without_play_icon))"
  by (simp add: updatePlayPauseIcon_def page_without_play_icon_def playing_page_def
      example_page_def)

text \<open>
  C3, amended. On a page with the play icon and the pause icon, after every run of the
  icon refresh, called directly or as the listener of the \<^verbatim>\<open>play\<close> and \<^verbatim>\<open>pause\<close>
  events, the play icon is visible exactly when the audio element is paused, the pause
  icon exactly when it is not, and \<^verbatim>\<open>state.isPlaying\<close> is the negation of the flag,
  whatever the state was before; the refresh does not touch the audio element.
\<close>

theorem updatePlayPauseIcon_shows_handle:
  assumes "playIcon p = Some play" and "pauseIcon p = Some pause"
  shows "\<forall>p' \<in> {updatePlayPauseIcon p, audio_play_event p, audio_pause_event p}.
           audioElement p' = audioElement p \<and>
           (\<exists>play' pause'.
              playIcon p' = Some play' \<and> pauseIcon p' = Some pause' \<and>
              visible play' = paused (audioElement p) \<and>
              visible pause' = (\<not> paused (audioElement p))) \<and>
           isPlaying (state p') = (\<not> paused (audioElement p))"
  using assms
  by (simp add: updatePlayPauseIcon_def audio_play_event_def audio_pause_event_def Let_def)

theorem updatePlayPauseIcon_shows_handle_witness:
  "(\<exists>play' pause'.
      playIcon (updatePlayPauseIcon playing_page) = Some play' \<and>
      pauseIcon (updatePlayPauseIcon playing_page) = Some pause' \<and>
      \<not> visible play' \<and> visible pause') \<and>
   isPlaying (state (updatePlayPauseIcon playing_page))"
  using updatePlayPauseIcon_shows_handle
    [of playing_page blank_element "blank_element\<lparr>classList := [''hidden'']\<rparr>"]
  by (simp add: playing_page_def example_page_def)

lemma showFeedback_audioElement [simp]: "audioElement (showFeedback m t p) = audioElement p"
  by (simp add: showFeedback_def Let_def split: option.splits)

lemma showFeedback_state [simp]: "state (showFeedback m t p) = state p"
  by (simp add: showFeedback_def Let_def split: option.splits)

lemma showFeedback_seekSlider [simp]: "seekSlider (showFeedback m t p) = seekSlider p"
  by (simp add: showFeedback_def Let_def split: option.splits)

text \<open>On a page with the two feedback elements, \<^verbatim>\<open>showFeedback\<close> shows the message,
  in the error colours exactly for the type \<^verbatim>\<open>error\<close>.\<close>

lemma showFeedback_shown:
  assumes "feedbackEl p = Some el" and "feedbackText p = Some txt"
  shows "\<exists>el' txt'. feedbackEl (showFeedback m t p) = Some el' \<and>
           feedbackText (showFeedback m t p) = Some txt' \<and>
           textContent txt' = m \<and>
           get_style ''opacity'' el' = Some ''1'' \<and>
           classList_contains ''bg-red-500/20'' el' = (t = Error) \<and>
           classList_contains ''text-red-300'' el' = (t = Error)"
  using assms
  by (simp add: showFeedback_def Let_def get_style_def set_style_def set_className_def
      classList_contains_def update_conv')

text \<open>No outcome of the play request makes \<^verbatim>\<open>togglePlayPause\<close> throw.\<close>

lemma togglePlayPause_never_throws:
  "\<exists>p'. togglePlayPause outcome p = Inr p'"
  by (simp add: togglePlayPause_def split: sum.splits)

text \<open>
  C4, as stated: whenever the play request of \<^verbatim>\<open>togglePlayPause\<close> is rejected, the
  playback state is left paused. A request that is rejected only after \<^verbatim>\<open>play()\<close>
  has returned has set \<^verbatim>\<open>paused\<close> to false by then; line 170 copies that into
  \<^verbatim>\<open>state.isPlaying\<close> and the handler of the rejection restores nothing. On the
  example page, paused before the call:
\<close>

theorem togglePlayPause_rejected_later_plays:
  "paused (audioElement example_page) \<and>
   map_sum id (paused \<circ> audioElement) (togglePlayPause_settled RejectedLater example_page) =
     Inr False \<and>
   map_sum id (isPlaying \<circ> state) (togglePlayPause_settled RejectedLater example_page) =
     Inr True"
  by (simp add: togglePlayPause_settled_def togglePlayPause_def togglePlayPause_try_def
      play_settled_def play_catch_def rejected_def media_play_def updatePlayPauseIcon_def
      example_page_def Let_def)

text \<open>
  C4, amended. When \<^verbatim>\<open>togglePlayPause\<close> asks the paused element to play and the
  request is rejected, at once or later, the call and the settling of the promise both
  end normally and, on a page with the feedback elements, the message "Playback failed"
  is shown in the error colours. The handler of the rejection changes neither the audio
  element nor the state: the element is as \<^verbatim>\<open>play()\<close> left it, which is unchanged and
  paused when the request was rejected at once, and \<^verbatim>\<open>state.isPlaying\<close> is the
  negation of its \<^verbatim>\<open>paused\<close> flag on a page with the two icons (the state is untouched
  without them).
\<close>

theorem togglePlayPause_rejected_play:
  assumes "paused (audioElement p)" and "rejected outcome"
  shows "\<exists>p'. togglePlayPause_settled outcome p = Inr p' \<and>
           audioElement p' = media_play outcome (audioElement p) \<and>
           (outcome = RejectedAtOnce \<longrightarrow> audioElement p' = audioElement p) \<and>
           (playIcon p \<noteq> None \<and> pauseIcon p \<noteq> None \<longrightarrow>
              isPlaying (state p') = (\<not> paused (audioElement p'))) \<and>
           (playIcon p = None \<or> pauseIcon p = None \<longrightarrow> state p' = state p) \<and>
           (feedbackEl p \<noteq> None \<and> feedbackText p \<noteq> None \<longrightarrow>
              (\<exists>el' txt'.
                 feedbackEl p' = Some el' \<and> feedbackText p' = Some txt' \<and>
                 textContent txt' = ''Playback failed'' \<and>
                 get_style ''opacity'' el' = Some ''1'' \<and>
                 classList_contains ''bg-red-500/20'' el' \<and>
                 classList_contains ''text-red-300'' el'))"
proof -
  define p1 where
    "p1 = updatePlayPauseIcon (p\<lparr>audioElement := media_play outcome (audioElement p)\<rparr>)"
  have nt: "outcome \<noteq> Throws"
    using assms(2) by (auto simp: rejected_def)
  have call: "togglePlayPause outcome p = Inr p1"
    using assms(1) nt
    by (cases outcome) (simp_all add: togglePlayPause_def togglePlayPause_try_def p1_def)
  have settled:
    "togglePlayPause_settled outcome p = Inr (showFeedback ''Playback failed'' Error p1)"
    using assms call
    by (simp add: togglePlayPause_settled_def play_settled_def play_catch_def)
  have handle: "audioElement p1 = media_play outcome (audioElement p)"
    by (simp add: p1_def updatePlayPauseIcon_def Let_def split: option.splits)
  have once: "outcome = RejectedAtOnce \<longrightarrow> audioElement p1 = audioElement p"
    by (simp add: handle media_play_def)
  have st1: "playIcon p \<noteq> None \<and> pauseIcon p \<noteq> None \<longrightarrow>
      isPlaying (state p1) = (\<not> paused (audioElement p1))"
    by (auto simp: p1_def updatePlayPauseIcon_def Let_def split: option.splits)
  have st2: "playIcon p = None \<or> pauseIcon p = None \<longrightarrow> state p1 = state p"
    by (auto simp: p1_def updatePlayPauseIcon_def Let_def split: option.splits)
  have fb: "feedbackEl p1 = feedbackEl p" "feedbackText p1 = feedbackText p"
    by (simp_all add: p1_def updatePlayPauseIcon_def Let_def split: option.splits)
  have toast: "feedbackEl p \<noteq> None \<and> feedbackText p \<noteq> None \<longrightarrow>
      (\<exists>el' txt'.
         feedbackEl (showFeedback ''Playback failed'' Error p1) = Some el' \<and>
         feedbackText (showFeedback ''Playback failed'' Error p1) = Some txt' \<and>
         textContent txt' = ''Playback failed'' \<and>
         get_style ''opacity'' el' = Some ''1'' \<and>
         classList_contains ''bg-red-500/20'' el' \<and>
         classList_contains ''text-red-300'' el')"
    using showFeedback_shown [of p1 _ _ "''Playback failed''" Error] fb by auto
  show ?thesis
    using settled handle once st1 st2 toast by simp
qed

theorem togglePlayPause_rejected_play_witness:
  "\<exists>p'. togglePlayPause_settled RejectedAtOnce example_page = Inr p' \<and>
     paused (audioElement p') \<and> \<not> isPlaying (state p') \<and>
     map_option textContent (feedbackText p') = Some ''Playback failed''"
proof -
  have "paused (audioElement example_page)" and "rejected RejectedAtOnce"
    and "feedbackEl example_page \<noteq> None" and "feedbackText example_page \<noteq> None"
    and "playIcon example_page \<noteq> None" and "pauseIcon example_page \<noteq> None"
    by (simp_all add: example_page_def rejected_def)
  with togglePlayPause_rejected_play [of example_page RejectedAtOnce]
  show ?thesis by force
qed

subsection \<open>Seeking with the slider\<close>

lemma js_or_Num_zero [simp]: "js_or (Num d) (Num 0) = Num d"
  by (simp add: js_or_def)

lemma updateProgress_while_seeking: "isSeeking (state p) \<Longrightarrow> updateProgress p = p"
  by (simp add: updateProgress_def)

text \<open>Values of the rounded product and of \<^verbatim>\<open>formatTime\<close> used below.\<close>

lemma formatTime_100: "formatTime (Num 100) = ''01:40''"
  by code_simp

lemma formatTime_58: "formatTime (Num 58) = ''00:58''"
  by code_simp

lemma product_50_200: "to_double (to_double (1 / 2) * 200) = 100"
  by code_simp

lemma product_29_200:
  "to_double (to_double (29 / 100) * 200) = 8162774324609023 / 140737488355328"
  by code_simp

lemma formatTime_product_29_200:
  "formatTime (Num (8162774324609023 / 140737488355328)) = ''00:57''"
  by code_simp

lemma product_50_120: "to_double (to_double (1 / 2) * 120) = 60"
  by code_simp

text \<open>
  C5, as stated: the label shows, and the commit writes, the fraction times the duration.
  With the slider at 29 and a duration of 200 s the product is 58 s, shown as 00:58; the
  script computes \<^verbatim>\<open>(29 / 100) * 200\<close> in doubles, which is just below 58, so the
  position written is not 58 and the label and the toast read 00:57.
\<close>

theorem seek_29_of_200_is_rounded:
  "currentTime (audioElement (seekSlider_change seek_page_29)) \<noteq> Num (29 / 100 * 200) \<and>
   formatTime (Num (29 / 100 * 200)) = ''00:58'' \<and>
   map_option textContent (currentTimeEl (seekSlider_input seek_page_29)) = Some ''00:57'' \<and>
   map_option textContent (feedbackText (seekSlider_change seek_page_29)) =
     Some ''Jumped to 00:57''"
  by (simp add: seek_page_29_def seek_page_def example_page_def seekSlider_change_def
      seekSlider_input_def showFeedback_def Let_def product_29_200 formatTime_58
      formatTime_product_29_200)

text \<open>
  C5, amended. With the seek slider at \<open>v\<close> percent and a known duration \<open>d\<close>, let
  \<open>t\<close> be the product \<^verbatim>\<open>(v / 100) * d\<close> as the script computes it, each operation
  rounded to a double. The drag handler sets \<^verbatim>\<open>isSeeking\<close> and changes nothing else
  than the time label, which becomes the time \<open>t\<close>, and the width of the progress bar,
  which becomes \<open>v\<close> percent (so while \<^verbatim>\<open>isSeeking\<close> is already true it changes
  those two only); it leaves the audio element as it is, and \<^verbatim>\<open>updateProgress\<close>
  renders nothing afterwards. The commit handler writes \<open>t\<close> to the position of the
  audio element, clears \<^verbatim>\<open>isSeeking\<close> and, on a page with the feedback elements,
  shows "Jumped to" followed by the time \<open>t\<close>.
\<close>

theorem seek_drag_then_commit:
  assumes "seekSlider p = Some slider" and "slider_value slider = Num v"
    and "duration (audioElement p) = Num d"
  shows "seekSlider_input p =
           p\<lparr>state := (state p)\<lparr>isSeeking := True\<rparr>,
             currentTimeEl :=
               map_option
                 (\<lambda>e. e\<lparr>textContent := formatTime (Num (to_double (to_double (v / 100) * d)))\<rparr>)
                 (currentTimeEl p),
             progressBar :=
               map_option (set_style ''width'' (toString (Num v) @ ''%'')) (progressBar p)\<rparr> \<and>
         (isSeeking (state p) \<longrightarrow>
            seekSlider_input p =
              p\<lparr>currentTimeEl :=
                  map_option
                    (\<lambda>e. e\<lparr>textContent :=
                       formatTime (Num (to_double (to_double (v / 100) * d)))\<rparr>)
                    (currentTimeEl p),
                progressBar :=
                  map_option (set_style ''width'' (toString (Num v) @ ''%'')) (progressBar p)\<rparr>) \<and>
         audioElement (seekSlider_input p) = audioElement p \<and>
         updateProgress (seekSlider_input p) = seekSlider_input p \<and>
         audioElement (seekSlider_change p) =
           (audioElement p)\<lparr>currentTime := Num (to_double (to_double (v / 100) * d))\<rparr> \<and>
         \<not> isSeeking (state (seekSlider_change p)) \<and>
         (feedbackEl p \<noteq> None \<and> feedbackText p \<noteq> None \<longrightarrow>
            map_option textContent (feedbackText (seekSlider_change p)) =
              Some (''Jumped to '' @ formatTime (Num (to_double (to_double (v / 100) * d)))))"
proof -
  have drag: "seekSlider_input p =
           p\<lparr>state := (state p)\<lparr>isSeeking := True\<rparr>,
             currentTimeEl :=
               map_option
                 (\<lambda>e. e\<lparr>textContent := formatTime (Num (to_double (to_double (v / 100) * d)))\<rparr>)
                 (currentTimeEl p),
             progressBar :=
               map_option (set_style ''width'' (toString (Num v) @ ''%'')) (progressBar p)\<rparr>"
    using assms by (simp add: seekSlider_input_def Let_def)
  have same: "isSeeking (state p) \<Longrightarrow> (state p)\<lparr>isSeeking := True\<rparr> = state p"
    by simp
  have seeking: "isSeeking (state (seekSlider_input p))"
    by (simp add: drag)
  have commit: "seekSlider_change p =
      showFeedback (''Jumped to '' @ formatTime (Num (to_double (to_double (v / 100) * d)))) Info
        (p\<lparr>audioElement :=
             (audioElement p)\<lparr>currentTime := Num (to_double (to_double (v / 100) * d))\<rparr>,
           state := (state p)\<lparr>isSeeking := False\<rparr>\<rparr>)"
    using assms by (simp add: seekSlider_change_def Let_def)
  have toast: "feedbackEl p \<noteq> None \<and> feedbackText p \<noteq> None \<longrightarrow>
            map_option textContent (feedbackText (seekSlider_change p)) =
              Some (''Jumped to '' @ formatTime (Num (to_double (to_double (v / 100) * d))))"
    by (auto simp: commit showFeedback_def Let_def)
  show ?thesis
    using drag same updateProgress_while_seeking [OF seeking] toast
    by (simp add: commit showFeedback_def Let_def split: option.splits)
qed

theorem seek_drag_then_commit_witness:
  "map_option textContent (currentTimeEl (seekSlider_input seek_page)) = Some ''01:40'' \<and>
   currentTime (audioElement (seekSlider_input seek_page)) = Num 3 \<and>
   currentTime (audioElement (seekSlider_change seek_page)) = Num 100 \<and>
   map_option textContent (feedbackText (seekSlider_change seek_page)) =
     Some ''Jumped to 01:40''"
proof -
  have "seekSlider seek_page = Some (blank_element\<lparr>slider_value := Num 50\<rparr>)"
    and "slider_value (blank_element\<lparr>slider_value := Num 50\<rparr>) = Num 50"
    and "duration (audioElement seek_page) = Num 200"
    by (simp_all add: seek_page_def example_page_def)
  from seek_drag_then_commit [OF this]
  show ?thesis
    by (simp add: seek_page_def example_page_def formatTime_100 product_50_200)
qed

text \<open>The position a commit writes, for any slider value and duration.\<close>

lemma seek_commit_position:
  "seekSlider p = Some slider \<Longrightarrow>
   currentTime (audioElement (seekSlider_change p)) =
     js_mul (js_div (slider_value slider) (Num 100)) (js_or (duration (audioElement p)) (Num 0))"
  by (simp add: seekSlider_change_def Let_def)

text \<open>
  C8. Committing a seek twice in a row, with the slider and the duration as they are,
  leaves the audio element, its position included, as the first commit left it.
\<close>

theorem seek_commit_idempotent:
  "audioElement (seekSlider_change (seekSlider_change p)) = audioElement (seekSlider_change p)"
  by (simp add: seekSlider_change_def Let_def split: option.splits)

theorem seek_commit_idempotent_witness:
  "currentTime (audioElement (seekSlider_change example_page)) = Num 60 \<and>
   currentTime (audioElement (seekSlider_change (seekSlider_change example_page))) = Num 60"
  using seek_commit_idempotent [of example_page]
  by (simp add: seekSlider_change_def Let_def example_page_def product_50_120)

subsection \<open>Playback speed\<close>

lemma showFeedback_speedOptions [simp]: "speedOptions (showFeedback m t p) = speedOptions p"
  by (simp add: showFeedback_def Let_def split: option.splits)

lemma showFeedback_speedButton [simp]: "speedButton (showFeedback m t p) = speedButton p"
  by (simp add: showFeedback_def Let_def split: option.splits)

lemma showFeedback_speedMenu [simp]: "speedMenu (showFeedback m t p) = speedMenu p"
  by (simp add: showFeedback_def Let_def split: option.splits)

lemma data_speed_mark [simp]: "data_speed (mark_speed_option speed e) = data_speed e"
  by (simp add: mark_speed_option_def Let_def setAttribute_def classList_toggle_def
      classList_add_def classList_remove_def)

lemma checked_mark:
  "checked (mark_speed_option speed e) =
     strict_eq (case data_speed e of None \<Rightarrow> Num 1 | Some s \<Rightarrow> s) speed"
  by (simp add: mark_speed_option_def Let_def checked_def getAttribute_def setAttribute_def
      update_conv' bool_toString_def)

lemma supported_is_Num: "speed \<in> set SUPPORTED_SPEEDS \<Longrightarrow> \<exists>r. speed = Num r"
  by (auto simp: SUPPORTED_SPEEDS_def)

lemma one_supported_speed:
  "speed \<in> set SUPPORTED_SPEEDS \<Longrightarrow>
   length (filter (\<lambda>s. strict_eq s speed) SUPPORTED_SPEEDS) = 1"
  by (auto simp: SUPPORTED_SPEEDS_def)

lemma setPlaybackSpeed_options:
  "array_includes SUPPORTED_SPEEDS speed \<Longrightarrow>
   speedOptions (setPlaybackSpeed speed p) = map (mark_speed_option speed) (speedOptions p)"
  by (simp add: setPlaybackSpeed_def Let_def split: option.splits)

lemma one_checked_option:
  assumes "speed \<in> set SUPPORTED_SPEEDS"
    and "map data_speed opts = map Some SUPPORTED_SPEEDS"
  shows "length (filter checked (map (mark_speed_option speed) opts)) = 1"
proof -
  have "length (filter checked (map (mark_speed_option speed) opts)) =
        length (filter
          (\<lambda>e. strict_eq (case data_speed e of None \<Rightarrow> Num 1 | Some s \<Rightarrow> s) speed) opts)"
    by (simp add: filter_map o_def checked_mark)
  also have "\<dots> =
        length (filter (\<lambda>d. strict_eq (case d of None \<Rightarrow> Num 1 | Some s \<Rightarrow> s) speed)
          (map data_speed opts))"
    by (simp add: filter_map o_def)
  also have "\<dots> = length (filter (\<lambda>s. strict_eq s speed) SUPPORTED_SPEEDS)"
    by (simp add: assms(2) filter_map o_def)
  finally show ?thesis
    by (simp add: one_supported_speed [OF assms(1)])
qed

text \<open>The texts of the speed indicator for the supported speeds.\<close>

lemma speed_labels:
  "map (\<lambda>r. toString r @ ''x'') SUPPORTED_SPEEDS =
     [''0.5x'', ''0.75x'', ''1x'', ''1.25x'', ''1.5x'', ''1.75x'', ''2x'']"
  by code_simp

lemma example_options:
  "map data_speed (speedOptions example_page) = map Some SUPPORTED_SPEEDS"
  by (simp add: example_page_def createSpeedControl_options_def speed_option_def o_def)

lemma toString_075: "toString (Num 0.75) = ''0.75''"
  by code_simp

text \<open>
  C6. For a supported speed \<open>r\<close>, \<^verbatim>\<open>setPlaybackSpeed(r)\<close> writes \<open>r\<close> to the playback
  rate of the audio element and of the state, sets the text of the speed button, when the
  page has one, to \<open>r\<close> followed by "x", and, when the speed options are the ones
  \<^verbatim>\<open>createSpeedControl\<close> made, leaves exactly one of them checked, the one for \<open>r\<close>.
  For any other \<open>r\<close> it returns the page, the audio element and the state unchanged.
\<close>

theorem setPlaybackSpeed_supported_or_noop:
  "(speed \<in> set SUPPORTED_SPEEDS \<longrightarrow>
      HTMLAudioElement.playbackRate (audioElement (setPlaybackSpeed speed p)) = speed \<and>
      PlayerState.playbackRate (state (setPlaybackSpeed speed p)) = speed \<and>
      (speedButton p \<noteq> None \<longrightarrow>
         map_option textContent (speedButton (setPlaybackSpeed speed p)) =
           Some (toString speed @ ''x'')) \<and>
      (map data_speed (speedOptions p) = map Some SUPPORTED_SPEEDS \<longrightarrow>
         length (filter checked (speedOptions (setPlaybackSpeed speed p))) = 1 \<and>
         (\<forall>e \<in> set (speedOptions (setPlaybackSpeed speed p)).
            checked e = (data_speed e = Some speed)))) \<and>
   (speed \<notin> set SUPPORTED_SPEEDS \<longrightarrow> setPlaybackSpeed speed p = p)"
proof (intro conjI impI)
  assume "speed \<notin> set SUPPORTED_SPEEDS"
  then show "setPlaybackSpeed speed p = p"
    by (simp add: setPlaybackSpeed_def array_includes_def)
next
  assume s: "speed \<in> set SUPPORTED_SPEEDS"
  then have inc: "array_includes SUPPORTED_SPEEDS speed"
    by (simp add: array_includes_def)
  show "HTMLAudioElement.playbackRate (audioElement (setPlaybackSpeed speed p)) = speed"
    using inc by (simp add: setPlaybackSpeed_def Let_def split: option.splits)
  show "PlayerState.playbackRate (state (setPlaybackSpeed speed p)) = speed"
    using inc by (simp add: setPlaybackSpeed_def Let_def split: option.splits)
  {
    assume "speedButton p \<noteq> None"
    then show "map_option textContent (speedButton (setPlaybackSpeed speed p)) =
           Some (toString speed @ ''x'')"
      using inc
      by (auto simp: setPlaybackSpeed_def Let_def setAttribute_def split: option.splits)
  }
  {
    assume opts: "map data_speed (speedOptions p) = map Some SUPPORTED_SPEEDS"
    show "length (filter checked (speedOptions (setPlaybackSpeed speed p))) = 1"
      using one_checked_option [OF s opts] by (simp add: setPlaybackSpeed_options [OF inc])
    obtain r where r: "speed = Num r"
      using supported_is_Num [OF s] by blast
    have known: "\<forall>e \<in> set (speedOptions p). \<exists>q. data_speed e = Some (Num q)"
    proof
      fix e assume "e \<in> set (speedOptions p)"
      then have "data_speed e \<in> set (map data_speed (speedOptions p))" by simp
      then have "data_speed e \<in> Some ` set SUPPORTED_SPEEDS" by (simp add: opts)
      then show "\<exists>q. data_speed e = Some (Num q)"
        using supported_is_Num by auto
    qed
    have "\<forall>e \<in> set (speedOptions p).
            checked (mark_speed_option speed e) = (data_speed e = Some speed)"
      using known by (auto simp: checked_mark r)
    then show "\<forall>e \<in> set (speedOptions (setPlaybackSpeed speed p)).
            checked e = (data_speed e = Some speed)"
      by (simp add: setPlaybackSpeed_options [OF inc])
  }
qed

theorem setPlaybackSpeed_supported_or_noop_witness:
  "Num 0.75 \<in> set SUPPORTED_SPEEDS \<and> Num 3 \<notin> set SUPPORTED_SPEEDS \<and>
   HTMLAudioElement.playbackRate (audioElement (setPlaybackSpeed (Num 0.75) example_page)) =
     Num 0.75 \<and>
   map_option textContent (speedButton (setPlaybackSpeed (Num 0.75) example_page)) =
     Some ''0.75x'' \<and>
   length (filter checked (speedOptions (setPlaybackSpeed (Num 0.75) example_page))) = 1 \<and>
   setPlaybackSpeed (Num 3) example_page = example_page"
proof -
  have a: "Num 0.75 \<in> set SUPPORTED_SPEEDS" and b: "Num 3 \<notin> set SUPPORTED_SPEEDS"
    by (simp_all add: SUPPORTED_SPEEDS_def)
  have c: "speedButton example_page \<noteq> None"
    by (simp add: example_page_def)
  show ?thesis
    using setPlaybackSpeed_supported_or_noop [of "Num 0.75" example_page]
      setPlaybackSpeed_supported_or_noop [of "Num 3" example_page]
      a b c example_options toString_075
    by simp
qed

subsection \<open>Keyboard seeking\<close>

lemma key_j_position:
  "currentTime (audioElement (key_j p)) =
     Math_max (Num 0) (js_sub (currentTime (audioElement p)) (Num 10))"
  by (simp add: key_j_def Let_def SEEK_JUMP_def)

lemma key_k_position:
  "currentTime (audioElement (key_k p)) =
     Math_min (js_or (duration (audioElement p)) (Num 0))
       (js_add (currentTime (audioElement p)) (Num 10))"
  by (simp add: key_k_def Let_def SEEK_JUMP_def)


lemma lower_k: "toLowerCase ''k'' = ''k''" "toLowerCase ''K'' = ''k''"
  by code_simp+



text \<open>The listener does nothing while the focus is in a text field or the document has
  no focus.\<close>

lemma keydown_suppressed:
  "targetTagName e = ''INPUT'' \<or> targetTagName e = ''TEXTAREA'' \<or>
   targetIsContentEditable e \<or> targetInTextbox e \<or> \<not> hasFocus \<Longrightarrow>
   keydown outcome hasFocus e p = Inr p"
  by (auto simp: keydown_def)

text \<open>Before the metadata is loaded the duration is \<^verbatim>\<open>NaN\<close>, and "k" seeks to
  \<^verbatim>\<open>Math.min(0, p + 10)\<close>.\<close>

lemma key_k_unknown_duration:
  "duration (audioElement p) = NaN \<Longrightarrow> currentTime (audioElement p) = Num pos \<Longrightarrow>
   currentTime (audioElement (key_k p)) = Num (min 0 (pos + 10))"
  by (simp add: key_k_position js_or_def)



text \<open>The toasts of the keys "j" and "k", on a page with the feedback elements.\<close>

lemma toString_SEEK_JUMP: "toString SEEK_JUMP = ''10''"
  by code_simp

lemma key_j_feedback:
  "feedbackEl p \<noteq> None \<Longrightarrow> feedbackText p \<noteq> None \<Longrightarrow>
   map_option textContent (feedbackText (key_j p)) =
     Some (''-10s ('' @ formatTime (currentTime (audioElement (key_j p))) @ '')'')"
  by (auto simp: key_j_def Let_def showFeedback_def toString_SEEK_JUMP)

lemma key_k_feedback:
  "feedbackEl p \<noteq> None \<Longrightarrow> feedbackText p \<noteq> None \<Longrightarrow>
   map_option textContent (feedbackText (key_k p)) =
     Some (''+10s ('' @ formatTime (currentTime (audioElement (key_k p))) @ '')'')"
  by (auto simp: key_k_def Let_def showFeedback_def toString_SEEK_JUMP)

lemma formatTime_0: "formatTime (Num 0) = ''00:00''"
  by code_simp

subsection \<open>The variant\<close>

text \<open>
  C9. In the variant, \<^verbatim>\<open>togglePlayPause\<close> on a playing audio element only reads the
  \<^verbatim>\<open>paused\<close> property, so the element stays as it is, playing; the main script pauses
  it. The two functions differ on every playing element.
\<close>

theorem variant_toggle_does_not_pause:
  assumes "\<not> paused (audioElement p)"
  shows "(\<exists>p'. variant_togglePlayPause outcome p = Inr p' \<and>
            audioElement p' = audioElement p \<and> \<not> paused (audioElement p')) \<and>
         (\<exists>p'. togglePlayPause outcome p = Inr p' \<and>
            audioElement p' = media_pause (audioElement p) \<and> paused (audioElement p'))"
  using assms
  by (simp add: variant_togglePlayPause_def variant_updatePlayPauseIcon_def
      togglePlayPause_def togglePlayPause_try_def updatePlayPauseIcon_def media_pause_def
      Let_def split: option.splits)

theorem variant_toggle_does_not_pause_witness:
  "\<not> paused (audioElement playing_page) \<and>
   (\<exists>p'. variant_togglePlayPause Fulfilled playing_page = Inr p' \<and>
      \<not> paused (audioElement p')) \<and>
   (\<exists>p'. togglePlayPause Fulfilled playing_page = Inr p' \<and> paused (audioElement p'))"
proof -
  have "\<not> paused (audioElement playing_page)"
    by (simp add: playing_page_def)
  from this variant_toggle_does_not_pause [OF this, of Fulfilled]
  show ?thesis by blast
qed

text \<open>The variant attaches no handler to the promise of \<^verbatim>\<open>play()\<close> and has no
  \<^verbatim>\<open>try\<close>: a rejection stays unhandled and an exception reaches the caller.\<close>

lemma variant_play_unhandled:
  "rejected outcome \<Longrightarrow> variant_play_settled outcome p = Inl UnhandledRejection"
  "paused (audioElement p) \<Longrightarrow> variant_togglePlayPause Throws p = Inl PlayException"
  by (simp_all add: variant_play_settled_def variant_togglePlayPause_def)

subsection \<open>The control surface\<close>

text \<open>
  C10, as stated: \<^verbatim>\<open>seekTo(time)\<close> writes its argument to the position for every
  time value. For \<^verbatim>\<open>NaN\<close> the setter of \<^verbatim>\<open>currentTime\<close> throws, \<^verbatim>\<open>seekTo\<close> has no
  guard, and nothing is written.
\<close>

theorem seekTo_NaN_throws: "seekTo NaN example_page = Inl TypeError"
  by (simp add: seekTo_def set_currentTime_def)

text \<open>
  C10, amended. For every finite \<open>t\<close>, \<^verbatim>\<open>window.audioPlayer.seekTo(t)\<close> returns
  normally, writes \<open>t\<close> to the position of the audio element as it is, and changes
  nothing else on the page: the value is not clamped and no feedback is shown; for
  \<^verbatim>\<open>NaN\<close> the call throws a \<^verbatim>\<open>TypeError\<close>. The keys "j" and "k" clamp the position
  they write (to 0 from below, to the duration from above) and, on a page with the
  feedback elements, show a toast with the new time.
\<close>

theorem seekTo_writes_argument:
  "seekTo (Num t) p = Inr (p\<lparr>audioElement := (audioElement p)\<lparr>currentTime := Num t\<rparr>\<rparr>) \<and>
   seekTo NaN p = Inl TypeError \<and>
   currentTime (audioElement (key_j p)) =
     Math_max (Num 0) (js_sub (currentTime (audioElement p)) (Num 10)) \<and>
   currentTime (audioElement (key_k p)) =
     Math_min (js_or (duration (audioElement p)) (Num 0))
       (js_add (currentTime (audioElement p)) (Num 10)) \<and>
   (feedbackEl p \<noteq> None \<and> feedbackText p \<noteq> None \<longrightarrow>
      map_option textContent (feedbackText (key_j p)) =
        Some (''-10s ('' @ formatTime (currentTime (audioElement (key_j p))) @ '')'') \<and>
      map_option textContent (feedbackText (key_k p)) =
        Some (''+10s ('' @ formatTime (currentTime (audioElement (key_k p))) @ '')''))"
  by (simp add: seekTo_def set_currentTime_def key_j_position key_k_position
      key_j_feedback key_k_feedback)

theorem seekTo_writes_argument_witness:
  "currentTime (audioElement example_page) = Num 3 \<and>
   duration (audioElement example_page) = Num 120 \<and>
   currentTime (audioElement (returned (seekTo (Num (- 7)) example_page))) = Num (- 7) \<and>
   currentTime (audioElement (returned (seekTo (Num 500) example_page))) = Num 500 \<and>
   feedbackText (returned (seekTo (Num 500) example_page)) = feedbackText example_page \<and>
   currentTime (audioElement (key_j example_page)) = Num 0 \<and>
   map_option textContent (feedbackText (key_j example_page)) = Some ''-10s (00:00)''"
proof -
  have "feedbackEl example_page \<noteq> None \<and> feedbackText example_page \<noteq> None"
    by (simp add: example_page_def)
  with seekTo_writes_argument [of "- 7" example_page]
    seekTo_writes_argument [of 500 example_page]
  show ?thesis
    by (simp add: example_page_def formatTime_0 returned_def)
qed

end
